theory Spec2Isabelle
  imports Main
begin

section \<open>JavaScript values\<close>

text \<open>
  The commands arrive as parsed JSON and the persisted documents are BSON, so fields are
  dynamically typed. A field holds one of the values below: \<open>JUndefined\<close> is what reading
  an absent property gives, \<open>JDate\<close> is a Date (milliseconds since the epoch) and
  \<open>JOid\<close> an ObjectId of the store. Numbers are the integer ones. \<open>JObj\<close> is a JSON
  object, its properties in the order in which they were written; a command may carry one in
  any field.
\<close>

datatype jsval =
    JUndefined
  | JNull
  | JBool bool
  | JNum int
  | JStr string
  | JDate int
  | JOid nat
  | JArr "jsval list"
  | JObj "(string \<times> jsval) list"

type_synonym obj = "(string \<times> jsval) list"

text \<open>Reading a property: \<open>o.k\<close> is \<open>undefined\<close> when the object has no such key.\<close>

definition get :: "obj \<Rightarrow> string \<Rightarrow> jsval" where
  "get ob k = (case map_of ob k of None \<Rightarrow> JUndefined | Some v \<Rightarrow> v)"

text \<open>Truthiness, as \<open>!x\<close>, \<open>x || y\<close> and \<open>if (x)\<close> use it.\<close>

fun truthy :: "jsval \<Rightarrow> bool" where
  "truthy JUndefined = False"
| "truthy JNull = False"
| "truthy (JBool b) = b"
| "truthy (JNum n) = (n \<noteq> 0)"
| "truthy (JStr s) = (s \<noteq> [])"
| "truthy (JDate t) = True"
| "truthy (JOid n) = True"
| "truthy (JArr xs) = True"
| "truthy (JObj kvs) = True"

definition js_or :: "jsval \<Rightarrow> jsval \<Rightarrow> jsval" where
  "js_or a b = (if truthy a then a else b)"

text \<open>
  Strict equality \<open>===\<close>: primitives are compared by type and value; objects, arrays,
  dates and ObjectIds are compared by reference, and a value read from a command is never
  the same reference as a constant of the code or of the configuration.
\<close>

fun primitive :: "jsval \<Rightarrow> bool" where
  "primitive (JDate t) = False"
| "primitive (JOid n) = False"
| "primitive (JArr xs) = False"
| "primitive (JObj kvs) = False"
| "primitive v = True"

definition strict_eq :: "jsval \<Rightarrow> jsval \<Rightarrow> bool" where
  "strict_eq a b = (primitive a \<and> a = b)"

text \<open>
  \<open>ToNumber\<close>, used by \<open>>=\<close>, \<open><\<close>, \<open>-\<close> and \<open>*\<close>; \<open>None\<close> is NaN. How
  a string, an array or an object converts is the engine's business and is taken as the
  parameter \<open>cv\<close>.
\<close>

fun to_number :: "(jsval \<Rightarrow> int option) \<Rightarrow> jsval \<Rightarrow> int option" where
  "to_number cv (JNum n) = Some n"
| "to_number cv (JBool b) = Some (if b then 1 else 0)"
| "to_number cv JNull = Some 0"
| "to_number cv JUndefined = None"
| "to_number cv (JDate t) = Some t"
| "to_number cv v = cv v"

definition js_ge :: "(jsval \<Rightarrow> int option) \<Rightarrow> jsval \<Rightarrow> int \<Rightarrow> bool" where
  "js_ge cv v n = (case to_number cv v of None \<Rightarrow> False | Some m \<Rightarrow> n \<le> m)"

definition js_lt :: "(jsval \<Rightarrow> int option) \<Rightarrow> jsval \<Rightarrow> int \<Rightarrow> bool" where
  "js_lt cv v n = (case to_number cv v of None \<Rightarrow> False | Some m \<Rightarrow> m < n)"


section \<open>The command router (\<open>WebSocketServer.handleMessage\<close>)\<close>

text \<open>
  The event of a message is \<open>JSON.parse(message)[2]\<close>. The fields the router reads or
  passes on are \<open>ops\<close>, \<open>code\<close>, \<open>user\<close>, \<open>sig\<close>, \<open>created_at\<close>, \<open>data\<close>
  and \<open>tags\<close>. \<open>data\<close> is \<open>None\<close> when it is absent or null (reading
  \<open>event.data.email\<close> then throws a TypeError) and otherwise the properties it has.
\<close>

record envelope =
  ops :: jsval
  code :: jsval
  user :: jsval
  sig :: jsval
  created_at :: jsval
  data :: "obj option"
  tags :: jsval

text \<open>
  What reaches \<open>handleMessage\<close>: text that \<open>JSON.parse\<close> rejects
  (\<open>Unparsable\<close>); a message whose element 2 is undefined or null, so that reading
  \<open>event.ops\<close> throws (\<open>NoEvent\<close>); or a message whose element 2 is any other value
  (\<open>Event\<close>), where a field that value does not have reads as undefined.
\<close>

datatype frame = Unparsable | NoEvent | Event envelope

text \<open>The calls the router makes on the user and event services, with their arguments.\<close>

datatype call =
    CreateUser jsval jsval jsval
  | CreateEvent envelope
  | GetUserByPubkey jsval
  | ReadEvents jsval nat
  | UpdateUser jsval "obj option"
  | DeleteUser jsval

text \<open>
  The errors of the program. Those thrown inside the router's \<open>try\<close> block are
  caught by its one \<open>catch\<close>, which logs them; \<open>InvalidFormat\<close> is the error for
  a missing \<open>ops\<close>, \<open>code\<close> or \<open>user\<close>. \<open>StorageFailure\<close> is an error raised by
  the store's driver or server.
\<close>

datatype js_error =
    SyntaxError
  | TypeError
  | InvalidFormat
  | UnknownOps
  | NotImplemented
  | StorageFailure

text \<open>
  One message ends in one of three ways: an error was thrown (and logged), one service
  method was called, or the \<open>switch\<close> was left without calling anything.
\<close>

datatype outcome = Threw js_error | Invoked call | Ignored

definition handleMessage :: "(jsval \<Rightarrow> int option) \<Rightarrow> frame \<Rightarrow> outcome" where
  "handleMessage cv fr =
     (case fr of
        Unparsable \<Rightarrow> Threw SyntaxError
      | NoEvent \<Rightarrow> Threw TypeError
      | Event event \<Rightarrow>
          if \<not> (truthy (ops event) \<and> truthy (code event) \<and> truthy (user event))
          then Threw InvalidFormat
          else if strict_eq (ops event) (JStr ''C'') then
            (if js_ge cv (code event) 100 \<and> js_lt cv (code event) 200 then
               (if strict_eq (code event) (JNum 100) then
                  (case data event of
                     None \<Rightarrow> Threw TypeError
                   | Some d \<Rightarrow> Invoked (CreateUser (user event) (get d ''email'') (sig event)))
                else Ignored)
             else if js_ge cv (code event) 200 \<and> js_lt cv (code event) 300 then
               (if strict_eq (code event) (JNum 200) then Invoked (CreateEvent event)
                else Ignored)
             else Ignored)
          else if strict_eq (ops event) (JStr ''R'') then
            (if js_ge cv (code event) 100 \<and> js_lt cv (code event) 200 then
               (if strict_eq (code event) (JNum 103) then Invoked (GetUserByPubkey (user event))
                else Ignored)
             else if js_ge cv (code event) 200 \<and> js_lt cv (code event) 300 then
               (if strict_eq (code event) (JNum 203) then Invoked (ReadEvents (user event) 1000)
                else Ignored)
             else Ignored)
          else if strict_eq (ops event) (JStr ''U'') then
            (if js_ge cv (code event) 100 \<and> js_lt cv (code event) 200 then
               (if strict_eq (code event) (JNum 101)
                then Invoked (UpdateUser (user event) (data event))
                else Ignored)
             else if js_ge cv (code event) 200 \<and> js_lt cv (code event) 300 then
               (if strict_eq (code event) (JNum 201) then Threw NotImplemented
                else Ignored)
             else Ignored)
          else if strict_eq (ops event) (JStr ''D'') then
            (if js_ge cv (code event) 100 \<and> js_lt cv (code event) 200 then
               (if strict_eq (code event) (JNum 102) then Invoked (DeleteUser (user event))
                else Ignored)
             else if js_ge cv (code event) 200 \<and> js_lt cv (code event) 300 then
               (if strict_eq (code event) (JNum 202) then Threw NotImplemented
                else Ignored)
             else Ignored)
          else Threw UnknownOps)"


section \<open>The document store\<close>

text \<open>
  The ledger keeps its records in one collection of the document store. What follows is the
  part of the store's behaviour the ledger relies on: serialisation, the filters it builds
  (a field set to a value of the command, \<open>$gte\<close>/\<open>$lte\<close> with dates, \<open>$in\<close>,
  \<open>$or\<close>), \<open>findOne\<close>, \<open>insertOne\<close>, \<open>countDocuments\<close>, a sorted and paged
  \<open>find\<close>, and the \<open>$match\<close>/\<open>$group\<close>/\<open>$project\<close> pipeline. A document is a list
  of fields; the collection is the list of its documents in insertion order.
\<close>

text \<open>Serialisation writes an undefined value as null.\<close>

fun bson :: "jsval \<Rightarrow> jsval" where
  "bson JUndefined = JNull"
| "bson v = v"

text \<open>
  \<open>Val v\<close> is the filter \<open>{field: v}\<close>, with \<open>v\<close> the value the code put there;
  \<open>Gte t\<close> is \<open>{field: {$gte: Date(t)}}\<close>, \<open>Range a b\<close> is \<open>{field: {$gte: Date(a),
  $lte: Date(b)}}\<close> and \<open>In vs\<close> is \<open>{field: {$in: vs}}\<close>.
\<close>

datatype cond = Val jsval | Gte int | Range int int | In "jsval list"

datatype clause = Field string cond | Or "(string \<times> cond) list list"

type_synonym query = "clause list"

text \<open>
  A condition on a field is tried on the field's value and, when that is an array, on each
  of its elements. A filter for null also matches a document without the field. Dates are
  only compared with dates.
\<close>

fun candidates :: "jsval option \<Rightarrow> jsval list" where
  "candidates None = []"
| "candidates (Some (JArr xs)) = JArr xs # xs"
| "candidates (Some v) = [v]"

fun date_ge :: "int \<Rightarrow> jsval \<Rightarrow> bool" where
  "date_ge t (JDate u) = (t \<le> u)"
| "date_ge t v = False"

fun date_le :: "int \<Rightarrow> jsval \<Rightarrow> bool" where
  "date_le t (JDate u) = (u \<le> t)"
| "date_le t v = False"

definition eq_holds :: "jsval \<Rightarrow> jsval option \<Rightarrow> bool" where
  "eq_holds q fv = ((q = JNull \<and> fv = None) \<or> q \<in> set (candidates fv))"

text \<open>
  A filter value that is an object whose first key starts with \<open>$\<close> is not compared: the
  store reads it as an operator expression, each property an operator with its operand, all
  of which must hold. Any other value, an object too, is compared for equality.
\<close>

fun operator_name :: "string \<Rightarrow> bool" where
  "operator_name [] = False"
| "operator_name (c # cs) = (c = CHR ''$'')"

fun is_expression :: "jsval \<Rightarrow> bool" where
  "is_expression (JObj ((k, v) # kvs)) = operator_name k"
| "is_expression v = False"

fun operators :: "jsval \<Rightarrow> (string \<times> jsval) list" where
  "operators (JObj kvs) = kvs"
| "operators v = []"

text \<open>
  The operators \<open>$eq\<close>, \<open>$ne\<close>, \<open>$in\<close>, \<open>$nin\<close> and \<open>$exists\<close> are written out.
  \<open>$in\<close> and \<open>$nin\<close> want an array without operator expressions among its elements.
  \<open>$exists\<close> takes its operand as a truth value: false, 0 and null count as false. Every
  other operator is the store's business and is taken as the parameter \<open>xo\<close>: for a name
  and an operand it gives the predicate on the field's value, or \<open>None\<close> when the store
  refuses the expression.
\<close>

type_synonym extra_ops = "string \<Rightarrow> jsval \<Rightarrow> (jsval option \<Rightarrow> bool) option"

fun store_true :: "jsval \<Rightarrow> bool" where
  "store_true JUndefined = False"
| "store_true JNull = False"
| "store_true (JBool b) = b"
| "store_true (JNum n) = (n \<noteq> 0)"
| "store_true v = True"

fun in_operand :: "jsval \<Rightarrow> jsval list option" where
  "in_operand (JArr xs) = (if list_ex is_expression xs then None else Some xs)"
| "in_operand v = None"

definition op_valid :: "extra_ops \<Rightarrow> string \<times> jsval \<Rightarrow> bool" where
  "op_valid xo op =
     (if fst op = ''$eq'' \<or> fst op = ''$ne'' \<or> fst op = ''$exists'' then True
      else if fst op = ''$in'' \<or> fst op = ''$nin'' then in_operand (snd op) \<noteq> None
      else operator_name (fst op) \<and> xo (fst op) (snd op) \<noteq> None)"

definition op_holds :: "extra_ops \<Rightarrow> string \<times> jsval \<Rightarrow> jsval option \<Rightarrow> bool" where
  "op_holds xo op fv =
     (if fst op = ''$eq'' then eq_holds (snd op) fv
      else if fst op = ''$ne'' then \<not> eq_holds (snd op) fv
      else if fst op = ''$exists'' then store_true (snd op) = (fv \<noteq> None)
      else if fst op = ''$in'' then
        (case in_operand (snd op) of
           None \<Rightarrow> False | Some xs \<Rightarrow> list_ex (\<lambda>q. eq_holds q fv) xs)
      else if fst op = ''$nin'' then
        (case in_operand (snd op) of
           None \<Rightarrow> False | Some xs \<Rightarrow> \<not> list_ex (\<lambda>q. eq_holds q fv) xs)
      else (case xo (fst op) (snd op) of None \<Rightarrow> False | Some p \<Rightarrow> p fv))"

definition val_valid :: "extra_ops \<Rightarrow> jsval \<Rightarrow> bool" where
  "val_valid xo v = (if is_expression v then list_all (op_valid xo) (operators v) else True)"

definition val_holds :: "extra_ops \<Rightarrow> jsval \<Rightarrow> jsval option \<Rightarrow> bool" where
  "val_holds xo v fv =
     (if is_expression v then list_all (\<lambda>op. op_holds xo op fv) (operators v)
      else eq_holds v fv)"

text \<open>The store refuses a query with a condition it cannot read; \<open>cond_valid\<close> says
  that it can.\<close>

fun cond_valid :: "extra_ops \<Rightarrow> cond \<Rightarrow> bool" where
  "cond_valid xo (Val v) = val_valid xo v"
| "cond_valid xo (Gte t) = True"
| "cond_valid xo (Range a b) = True"
| "cond_valid xo (In qs) = (\<not> list_ex is_expression qs)"

fun holds :: "extra_ops \<Rightarrow> cond \<Rightarrow> jsval option \<Rightarrow> bool" where
  "holds xo (Val v) fv = val_holds xo v fv"
| "holds xo (Gte t) fv = list_ex (date_ge t) (candidates fv)"
| "holds xo (Range a b) fv =
     (list_ex (date_ge a) (candidates fv) \<and> list_ex (date_le b) (candidates fv))"
| "holds xo (In qs) fv = list_ex (\<lambda>q. eq_holds q fv) qs"

definition all_hold :: "extra_ops \<Rightarrow> (string \<times> cond) list \<Rightarrow> obj \<Rightarrow> bool" where
  "all_hold xo kcs d = list_all (\<lambda>(k, c). holds xo c (map_of d k)) kcs"

fun clause_valid :: "extra_ops \<Rightarrow> clause \<Rightarrow> bool" where
  "clause_valid xo (Field k c) = cond_valid xo c"
| "clause_valid xo (Or alts) = list_all (list_all (\<lambda>(k, c). cond_valid xo c)) alts"

fun matches_clause :: "extra_ops \<Rightarrow> clause \<Rightarrow> obj \<Rightarrow> bool" where
  "matches_clause xo (Field k c) d = holds xo c (map_of d k)"
| "matches_clause xo (Or alts) d = list_ex (\<lambda>kcs. all_hold xo kcs d) alts"

definition query_valid :: "extra_ops \<Rightarrow> query \<Rightarrow> bool" where
  "query_valid xo q = list_all (clause_valid xo) q"

definition matches :: "extra_ops \<Rightarrow> query \<Rightarrow> obj \<Rightarrow> bool" where
  "matches xo q d = list_all (\<lambda>c. matches_clause xo c d) q"

text \<open>The store: the collection and the counter from which fresh ObjectIds are drawn.\<close>

record store =
  browselogs :: "obj list"
  next_oid :: nat

text \<open>A query the store refuses fails the operation (the driver throws).\<close>

definition find_docs :: "extra_ops \<Rightarrow> query \<Rightarrow> obj list \<Rightarrow> js_error + obj list" where
  "find_docs xo q ds =
     (if query_valid xo q then Inr (filter (matches xo q) ds) else Inl StorageFailure)"

definition findOne :: "extra_ops \<Rightarrow> query \<Rightarrow> obj list \<Rightarrow> js_error + obj option" where
  "findOne xo q ds =
     (if query_valid xo q then Inr (List.find (matches xo q) ds) else Inl StorageFailure)"

definition countDocuments :: "extra_ops \<Rightarrow> query \<Rightarrow> obj list \<Rightarrow> js_error + nat" where
  "countDocuments xo q ds =
     (if query_valid xo q then Inr (length (filter (matches xo q) ds)) else Inl StorageFailure)"

text \<open>
  \<open>insertOne\<close> gives the document a fresh \<open>_id\<close> (which the driver also sets on the
  object it was handed), serialises it and appends it to the collection. A field value is
  stored as it is, a nested object with \<open>$\<close> keys too.
\<close>

definition stored :: "jsval \<Rightarrow> obj \<Rightarrow> obj" where
  "stored oid d = (''_id'', oid) # map (\<lambda>(k, v). (k, bson v)) d"

definition insertOne :: "obj \<Rightarrow> store \<Rightarrow> jsval \<times> store" where
  "insertOne d s =
     (JOid (next_oid s),
      s\<lparr>browselogs := browselogs s @ [stored (JOid (next_oid s)) d],
        next_oid := Suc (next_oid s)\<rparr>)"

text \<open>
  \<open>sort({createdAt: -1})\<close>: newest first. The ledger only ever stores a date in
  \<open>createdAt\<close>; documents with anything else there come after the dated ones, and
  documents with equal keys keep their insertion order (the store leaves that order open).
\<close>

definition created_time :: "obj \<Rightarrow> int option" where
  "created_time d = (case map_of d ''createdAt'' of Some (JDate t) \<Rightarrow> Some t | _ \<Rightarrow> None)"

fun newer :: "int option \<Rightarrow> int option \<Rightarrow> bool" where
  "newer (Some x) (Some y) = (y < x)"
| "newer (Some x) None = True"
| "newer None b = False"

fun insert_desc :: "obj \<Rightarrow> obj list \<Rightarrow> obj list" where
  "insert_desc d [] = [d]"
| "insert_desc d (e # es) =
     (if newer (created_time e) (created_time d) then e # insert_desc d es else d # e # es)"

definition sort_desc :: "obj list \<Rightarrow> obj list" where
  "sort_desc ds = foldr insert_desc ds []"

text \<open>
  \<open>skip\<close> wants a number that is not negative and \<open>limit\<close> wants a number; anything
  else is refused by the driver or the server. A limit of zero is no limit, and a negative
  limit asks for at most that many documents.
\<close>

definition cursor_page :: "int option \<Rightarrow> jsval \<Rightarrow> obj list \<Rightarrow> js_error + obj list" where
  "cursor_page skip lim ds =
     (case skip of
        None \<Rightarrow> Inl StorageFailure
      | Some k \<Rightarrow>
          if k < 0 then Inl StorageFailure
          else (case lim of
                  JNum n \<Rightarrow> Inr (if n = 0 then drop (nat k) ds else take (nat \<bar>n\<bar>) (drop (nat k) ds))
                | _ \<Rightarrow> Inl StorageFailure))"






section \<open>The browse ledger (\<open>BrowseLogsService\<close>)\<close>

text \<open>
  Every operation answers with an object \<open>{code, message, ...}\<close>: \<open>Reply code message
  rest\<close>, where \<open>rest\<close> is the \<open>data\<close> (or \<open>counts\<close>) of the answer, \<open>None\<close> when
  the answer has none. The messages are fixed texts of the code, named here by what they say.
  An operation whose query the store refuses throws instead of answering: \<open>Inl\<close>.
\<close>

datatype message =
    InvalidReportCode
  | ClockSkew
  | MissingTarget
  | AlreadyRecorded
  | ReportOk
  | InvalidReadCode
  | ReadOk
  | InvalidCountCode
  | CountOk

datatype 'a reply = Reply int message "'a option"

text \<open>
  The service object: \<open>adminPubkey\<close> comes from the configuration, \<open>duplicateInterval\<close>
  is set by the constructor.
\<close>

definition duplicateInterval :: int where
  "duplicateInterval = 24 * 60 * 60 * 1000"

text \<open>
  \<open>new Date(v)\<close> as its time value, \<open>None\<close> for an invalid date. A number is a time
  value when it is within the range of dates; how a string, an array or an object is parsed
  is the engine's business and is taken as the parameter \<open>pd\<close>. Serialisation writes an
  invalid date as the date 0.
\<close>

fun new_Date :: "(jsval \<Rightarrow> int option) \<Rightarrow> jsval \<Rightarrow> int option" where
  "new_Date pd (JNum n) = (if \<bar>n\<bar> \<le> 8640000000000000 then Some n else None)"
| "new_Date pd (JBool b) = Some (if b then 1 else 0)"
| "new_Date pd JNull = Some 0"
| "new_Date pd JUndefined = None"
| "new_Date pd (JDate t) = Some t"
| "new_Date pd v = pd v"

fun bson_date :: "int option \<Rightarrow> int" where
  "bson_date None = 0"
| "bson_date (Some t) = t"

subsection \<open>Report (\<open>reportBrowseLog\<close>)\<close>

text \<open>
  The function reads the clock five times: for the default of \<open>created_at\<close>, for the
  difference to the client's time, for the start of the window, and for \<open>createdAt\<close> and
  \<open>updatedAt\<close> of the new record. The readings are arguments of the model.
\<close>

record clock =
  now_default :: int
  now_check :: int
  now_window :: int
  now_created :: int
  now_updated :: int

definition timeDiff :: "(jsval \<Rightarrow> int option) \<Rightarrow> clock \<Rightarrow> obj \<Rightarrow> int option" where
  "timeDiff pd clk browseEvent =
     (case new_Date pd (js_or (get browseEvent ''created_at'') (JNum (now_default clk))) of
        None \<Rightarrow> None
      | Some clientTime \<Rightarrow> Some \<bar>now_check clk - clientTime\<bar>)"

text \<open>\<open>timeDiff > 5 * 60 * 1000\<close>; a comparison with NaN is false.\<close>

definition too_far :: "int option \<Rightarrow> bool" where
  "too_far diff = (case diff of None \<Rightarrow> False | Some n \<Rightarrow> 5 * 60 * 1000 < n)"

definition duplicateQuery :: "clock \<Rightarrow> obj \<Rightarrow> query" where
  "duplicateQuery clk browseEvent =
     [Field ''targetId'' (Val (bson (get browseEvent ''targetId''))),
      Field ''createdAt'' (Gte (now_window clk - duplicateInterval))]
     @ (if truthy (get browseEvent ''user'')
        then [Field ''user'' (Val (bson (get browseEvent ''user'')))] else [])"

definition browseRecord :: "clock \<Rightarrow> obj \<Rightarrow> obj" where
  "browseRecord clk browseEvent =
     [(''user'', js_or (get browseEvent ''user'') JNull),
      (''anonymousId'', get browseEvent ''anonymousId''),
      (''targetId'', get browseEvent ''targetId''),
      (''ipAddress'', js_or (get browseEvent ''ipAddress'') (JStr [])),
      (''createdAt'', JDate (now_created clk)),
      (''updatedAt'', JDate (now_updated clk))]"

definition reportBrowseLog ::
  "extra_ops \<Rightarrow> (jsval \<Rightarrow> int option) \<Rightarrow> clock \<Rightarrow> store \<Rightarrow> obj
     \<Rightarrow> js_error + (obj reply \<times> store)" where
  "reportBrowseLog xo pd clk s browseEvent =
     (if \<not> strict_eq (get browseEvent ''code'') (JNum 700)
      then Inr (Reply 400 InvalidReportCode None, s)
      else if too_far (timeDiff pd clk browseEvent)
      then Inr (Reply 500 ClockSkew None, s)
      else if \<not> truthy (get browseEvent ''targetId'')
      then Inr (Reply 400 MissingTarget None, s)
      else (case findOne xo (duplicateQuery clk browseEvent) (browselogs s) of
              Inl e \<Rightarrow> Inl e
            | Inr (Some existingRecord) \<Rightarrow>
                Inr (Reply 200 AlreadyRecorded
                       (Some [(''browseId'', get existingRecord ''_id''),
                              (''lastBrowseTime'', get existingRecord ''createdAt'')]),
                     s)
            | Inr None \<Rightarrow>
                Inr (Reply 200 ReportOk
                       (Some [(''browseId'', fst (insertOne (browseRecord clk browseEvent) s)),
                              (''browseTime'', JDate (now_created clk))]),
                     snd (insertOne (browseRecord clk browseEvent) s))))"

subsection \<open>Read (\<open>readBrowseLogs\<close>)\<close>

text \<open>The \<open>data\<close> of a read: the page, the paging values as used, and the total.\<close>

record read_data =
  list :: "obj list"
  pageNum :: jsval
  pageSize :: jsval
  total :: nat

definition isAdmin :: "jsval \<Rightarrow> obj \<Rightarrow> bool" where
  "isAdmin adminPubkey queryEvent = strict_eq (get queryEvent ''user'') adminPubkey"

text \<open>
  The query is built in two steps: who may see what (lines 117 to 127), then the filters that
  apply to every caller (lines 129 to 137). The fields of the command go into the filter as
  they are.
\<close>

definition visibility :: "jsval \<Rightarrow> obj \<Rightarrow> query" where
  "visibility adminPubkey queryEvent =
     (if \<not> isAdmin adminPubkey queryEvent
      then [Or [[(''user'', Val (bson (get queryEvent ''user'')))],
                [(''anonymousId'', Val (bson (get queryEvent ''anonymousId''))),
                 (''user'', Val JNull)]]]
      else (if truthy (get queryEvent ''userFilter'')
            then [Field ''user'' (Val (bson (get queryEvent ''userFilter'')))] else [])
           @ (if truthy (get queryEvent ''anonymousId'')
              then [Field ''anonymousId'' (Val (bson (get queryEvent ''anonymousId'')))] else []))"

definition commonFilters :: "(jsval \<Rightarrow> int option) \<Rightarrow> obj \<Rightarrow> query" where
  "commonFilters pd queryEvent =
     (if truthy (get queryEvent ''targetType'')
      then [Field ''targetType'' (Val (bson (get queryEvent ''targetType'')))] else [])
     @ (if truthy (get queryEvent ''targetId'')
        then [Field ''targetId'' (Val (bson (get queryEvent ''targetId'')))] else [])
     @ (if truthy (get queryEvent ''startTime'') \<and> truthy (get queryEvent ''endTime'')
        then [Field ''createdAt''
                (Range (bson_date (new_Date pd (get queryEvent ''startTime'')))
                       (bson_date (new_Date pd (get queryEvent ''endTime''))))]
        else [])"

definition readQuery :: "(jsval \<Rightarrow> int option) \<Rightarrow> jsval \<Rightarrow> obj \<Rightarrow> query" where
  "readQuery pd adminPubkey queryEvent =
     visibility adminPubkey queryEvent @ commonFilters pd queryEvent"

text \<open>\<open>skip = (pageNum - 1) * pageSize\<close>, with NaN as \<open>None\<close>.\<close>

definition skip_of :: "(jsval \<Rightarrow> int option) \<Rightarrow> jsval \<Rightarrow> jsval \<Rightarrow> int option" where
  "skip_of cv pn ps =
     (case to_number cv pn of
        None \<Rightarrow> None
      | Some a \<Rightarrow> (case to_number cv ps of None \<Rightarrow> None | Some b \<Rightarrow> Some ((a - 1) * b)))"

text \<open>The documents of the page, as the cursor returns them.\<close>

definition browseRecords ::
  "extra_ops \<Rightarrow> (jsval \<Rightarrow> int option) \<Rightarrow> (jsval \<Rightarrow> int option) \<Rightarrow> jsval \<Rightarrow> store \<Rightarrow> obj
     \<Rightarrow> js_error + obj list" where
  "browseRecords xo cv pd adminPubkey s queryEvent =
     (case find_docs xo (readQuery pd adminPubkey queryEvent) (browselogs s) of
        Inl e \<Rightarrow> Inl e
      | Inr found \<Rightarrow>
          cursor_page
            (skip_of cv (js_or (get queryEvent ''pageNum'') (JNum 1))
                        (js_or (get queryEvent ''pageSize'') (JNum 20)))
            (js_or (get queryEvent ''pageSize'') (JNum 20))
            (sort_desc found))"

definition formatted :: "jsval \<Rightarrow> obj \<Rightarrow> obj \<Rightarrow> obj" where
  "formatted adminPubkey queryEvent record =
     [(''_id'', get record ''_id''),
      (''user'', get record ''user''),
      (''anonymousId'', get record ''anonymousId''),
      (''targetId'', get record ''targetId''),
      (''createdAt'', get record ''createdAt''),
      (''updatedAt'', get record ''updatedAt''),
      (''ipAddress'',
         if isAdmin adminPubkey queryEvent then get record ''ipAddress'' else JStr ''******'')]"

definition readBrowseLogs ::
  "extra_ops \<Rightarrow> (jsval \<Rightarrow> int option) \<Rightarrow> (jsval \<Rightarrow> int option) \<Rightarrow> jsval \<Rightarrow> store \<Rightarrow> obj
     \<Rightarrow> js_error + read_data reply" where
  "readBrowseLogs xo cv pd adminPubkey s queryEvent =
     (if \<not> strict_eq (get queryEvent ''code'') (JNum 703)
      then Inr (Reply 400 InvalidReadCode None)
      else (case browseRecords xo cv pd adminPubkey s queryEvent of
              Inl e \<Rightarrow> Inl e
            | Inr page \<Rightarrow>
                (case countDocuments xo (readQuery pd adminPubkey queryEvent) (browselogs s) of
                   Inl e \<Rightarrow> Inl e
                 | Inr n \<Rightarrow>
                     Inr (Reply 200 ReadOk
                       (Some \<lparr>list = map (formatted adminPubkey queryEvent) page,
                              pageNum = js_or (get queryEvent ''pageNum'') (JNum 1),
                              pageSize = js_or (get queryEvent ''pageSize'') (JNum 20),
                              total = n\<rparr>)))))"

subsection \<open>Count (\<open>countBrowseLogs\<close>)\<close>




section \<open>The specification's notions\<close>


fun is_id :: "jsval \<Rightarrow> bool" where
  "is_id (JArr xs) = False"
| "is_id JUndefined = False"
| "is_id JNull = False"
| "is_id v = True"



section \<open>Example states and commands\<close>

text \<open>Concrete inputs on which the theorems below are instantiated and the code is run.\<close>

definition no_parse :: "jsval \<Rightarrow> int option" where
  "no_parse v = None"

text \<open>A store that knows no operator beyond the ones written out above.\<close>

definition no_ops :: extra_ops where
  "no_ops name operand = None"

definition clock_at :: "int \<Rightarrow> clock" where
  "clock_at t =
     \<lparr>now_default = t, now_check = t, now_window = t, now_created = t, now_updated = t\<rparr>"

definition empty_store :: store where
  "empty_store = \<lparr>browselogs = [], next_oid = 0\<rparr>"

definition command :: "string \<Rightarrow> int \<Rightarrow> envelope" where
  "command letter n =
     \<lparr>ops = JStr letter, code = JNum n, user = JStr ''u1'', sig = JUndefined,
      created_at = JUndefined, data = None, tags = JUndefined\<rparr>"

text \<open>One anonymous view of \<open>post1\<close> by the client \<open>anonA\<close>.\<close>

definition anon_store :: store where
  "anon_store =
     \<lparr>browselogs =
        [[(''_id'', JOid 0), (''user'', JNull), (''anonymousId'', JStr ''anonA''),
          (''targetId'', JStr ''post1''), (''ipAddress'', JStr ''10.0.0.1''),
          (''createdAt'', JDate 1700000000000), (''updatedAt'', JDate 1700000000000)]],
      next_oid = 1\<rparr>"


text \<open>A report of \<open>post1\<close> by the user \<open>u1\<close>, and the record it leaves in \<open>anon_store\<close>
  when the clock reads 1700003600000.\<close>

definition view_cmd :: obj where
  "view_cmd =
     [(''code'', JNum 700), (''user'', JStr ''u1''), (''anonymousId'', JStr ''anonA''),
      (''targetId'', JStr ''post1'')]"

definition viewed :: obj where
  "viewed =
     [(''_id'', JOid 1), (''user'', JStr ''u1''), (''anonymousId'', JStr ''anonA''),
      (''targetId'', JStr ''post1''), (''ipAddress'', JStr []),
      (''createdAt'', JDate 1700003600000), (''updatedAt'', JDate 1700003600000)]"

text \<open>
  A ledger with an anonymous view, a view by \<open>u1\<close> and a view by \<open>u2\<close>; the reads of it
  by \<open>u1\<close> and by the administrator (who asks for the records of \<open>u2\<close>), and what they
  return.
\<close>

definition admin_key :: jsval where
  "admin_key = JStr ''admin''"

definition ledger3 :: store where
  "ledger3 =
     \<lparr>browselogs =
        [[(''_id'', JOid 0), (''user'', JNull), (''anonymousId'', JStr ''anonA''),
          (''targetId'', JStr ''post1''), (''ipAddress'', JStr ''10.0.0.1''),
          (''createdAt'', JDate 1700000000000), (''updatedAt'', JDate 1700000000000)],
         [(''_id'', JOid 1), (''user'', JStr ''u1''), (''anonymousId'', JStr ''anonA''),
          (''targetId'', JStr ''post2''), (''ipAddress'', JStr ''10.0.0.1''),
          (''createdAt'', JDate 1700000100000), (''updatedAt'', JDate 1700000100000)],
         [(''_id'', JOid 2), (''user'', JStr ''u2''), (''anonymousId'', JStr ''anonB''),
          (''targetId'', JStr ''post1''), (''ipAddress'', JStr ''10.0.0.2''),
          (''createdAt'', JDate 1700000200000), (''updatedAt'', JDate 1700000200000)]],
      next_oid = 3\<rparr>"

definition read_u1 :: obj where
  "read_u1 = [(''code'', JNum 703), (''user'', JStr ''u1''), (''anonymousId'', JStr ''anonA'')]"

definition read_admin :: obj where
  "read_admin = [(''code'', JNum 703), (''user'', JStr ''admin''), (''userFilter'', JStr ''u2'')]"

definition u1_page :: read_data where
  "u1_page =
     \<lparr>list =
        [[(''_id'', JOid 1), (''user'', JStr ''u1''), (''anonymousId'', JStr ''anonA''),
          (''targetId'', JStr ''post2''), (''createdAt'', JDate 1700000100000),
          (''updatedAt'', JDate 1700000100000), (''ipAddress'', JStr ''******'')],
         [(''_id'', JOid 0), (''user'', JNull), (''anonymousId'', JStr ''anonA''),
          (''targetId'', JStr ''post1''), (''createdAt'', JDate 1700000000000),
          (''updatedAt'', JDate 1700000000000), (''ipAddress'', JStr ''******'')]],
      pageNum = JNum 1, pageSize = JNum 20, total = 2\<rparr>"

definition admin_page :: read_data where
  "admin_page =
     \<lparr>list =
        [[(''_id'', JOid 2), (''user'', JStr ''u2''), (''anonymousId'', JStr ''anonB''),
          (''targetId'', JStr ''post1''), (''createdAt'', JDate 1700000200000),
          (''updatedAt'', JDate 1700000200000), (''ipAddress'', JStr ''10.0.0.2'')]],
      pageNum = JNum 1, pageSize = JNum 20, total = 1\<rparr>"

text \<open>
  A collection holding the record \<open>viewed\<close> and a document with a \<open>targetType\<close> (which
  no operation of the ledger writes), and a read of it that filters on \<open>targetType\<close>.
\<close>

definition typed_doc :: obj where
  "typed_doc =
     [(''_id'', JOid 7), (''user'', JStr ''u1''), (''anonymousId'', JStr ''anonA''),
      (''targetId'', JStr ''post1''), (''targetType'', JStr ''post''),
      (''ipAddress'', JStr []), (''createdAt'', JDate 1700003700000),
      (''updatedAt'', JDate 1700003700000)]"

definition typed_store :: store where
  "typed_store = \<lparr>browselogs = [viewed, typed_doc], next_oid = 8\<rparr>"

definition read_typed :: obj where
  "read_typed =
     [(''code'', JNum 703), (''user'', JStr ''u1''), (''anonymousId'', JStr ''anonA''),
      (''targetType'', JStr ''post'')]"

definition typed_page :: read_data where
  "typed_page =
     \<lparr>list =
        [[(''_id'', JOid 7), (''user'', JStr ''u1''), (''anonymousId'', JStr ''anonA''),
          (''targetId'', JStr ''post1''), (''createdAt'', JDate 1700003700000),
          (''updatedAt'', JDate 1700003700000), (''ipAddress'', JStr ''******'')]],
      pageNum = JNum 1, pageSize = JNum 20, total = 1\<rparr>"






text \<open>
  A read of \<open>ledger3\<close> by a caller who is not the administrator and whose \<open>user\<close> is the
  object \<open>{"$ne": null}\<close>.
\<close>

definition read_ne :: obj where
  "read_ne =
     [(''code'', JNum 703), (''user'', JObj [(''$ne'', JNull)]),
      (''anonymousId'', JStr ''anonX'')]"

text \<open>
  A read of \<open>typed_store\<close> by \<open>u1\<close> whose \<open>targetType\<close> is the object
  \<open>{"$exists": false}\<close>.
\<close>

definition read_untyped :: obj where
  "read_untyped =
     [(''code'', JNum 703), (''user'', JStr ''u1''), (''anonymousId'', JStr ''anonA''),
      (''targetType'', JObj [(''$exists'', JBool False)])]"






text \<open>The anonymous client \<open>anonB\<close> reports \<open>post1\<close>.\<close>

definition report_anonB :: obj where
  "report_anonB =
     [(''code'', JNum 700), (''anonymousId'', JStr ''anonB''), (''targetId'', JStr ''post1'')]"

text \<open>Reports of \<open>post1\<close> whose \<open>created_at\<close> is 8640000000000001, one millisecond
  past the last date there is, and 0.\<close>

definition report_late :: obj where
  "report_late =
     [(''code'', JNum 700), (''created_at'', JNum 8640000000000001),
      (''targetId'', JStr ''post1'')]"

definition report_epoch :: obj where
  "report_epoch =
     [(''code'', JNum 700), (''created_at'', JNum 0), (''targetId'', JStr ''post1'')]"

text \<open>The store \<open>anon_store\<close> after the report \<open>view_cmd\<close>.\<close>

definition viewed_store :: store where
  "viewed_store = \<lparr>browselogs = browselogs anon_store @ [viewed], next_oid = 2\<rparr>"

section \<open>The router: properties\<close>

lemma above_700_not_below_300:
  assumes "js_ge cv c 700"
  shows "\<not> js_lt cv c 200" and "\<not> js_lt cv c 300"
  using assms by (auto simp: js_ge_def js_lt_def split: option.splits)

text \<open>
  C2, as the code has it. For every well-formed command (\<open>ops\<close>, \<open>code\<close> and
  \<open>user\<close> present) whose code lies in [700, 800), the router calls no service method at
  all: it has no branch for the browse ledger, so the command reaches neither a ledger
  handler nor the user or event service.
\<close>

theorem router_has_no_ledger_branch:
  assumes "truthy (ops event)" and "truthy (code event)" and "truthy (user event)"
    and "js_ge cv (code event) 700" and "js_lt cv (code event) 800"
  shows "handleMessage cv (Event event) \<noteq> Invoked c"
  using assms above_700_not_below_300[of cv "code event"]
  by (simp add: handleMessage_def)

theorem router_has_no_ledger_branch_witness:
  "handleMessage no_parse (Event (command ''C'' 700)) \<noteq> Invoked (CreateEvent (command ''C'' 700))"
proof -
  have present: "truthy (ops (command ''C'' 700))" "truthy (code (command ''C'' 700))"
    "truthy (user (command ''C'' 700))"
    by (simp_all add: command_def)
  have in_range: "js_ge no_parse (code (command ''C'' 700)) 700"
    "js_lt no_parse (code (command ''C'' 700)) 800"
    by (simp_all add: command_def js_ge_def js_lt_def)
  show ?thesis
    by (rule router_has_no_ledger_branch[OF present in_range])
qed

text \<open>
  C2 as stated fails: the commands with the codes 700, 703 and 704 are dispatched to no
  handler; the router leaves its \<open>switch\<close> without a call.
\<close>

theorem ledger_codes_not_dispatched:
  "handleMessage no_parse (Event (command ''C'' 700)) = Ignored
   \<and> handleMessage no_parse (Event (command ''R'' 703)) = Ignored
   \<and> handleMessage no_parse (Event (command ''R'' 704)) = Ignored"
  by (simp add: handleMessage_def command_def strict_eq_def js_ge_def js_lt_def)

text \<open>
  C6 at the command \<open>{ops: "C", code: 150, user: "u1"}\<close>: the pair (C, 150) has no
  handler, and the router neither calls a service nor throws; the command is dropped
  silently, where an unknown \<open>ops\<close> letter throws.
\<close>

theorem unregistered_code_is_dropped_silently:
  "handleMessage no_parse (Event (command ''C'' 150)) = Ignored
   \<and> handleMessage no_parse (Event (command ''X'' 150)) = Threw UnknownOps"
  by (simp add: handleMessage_def command_def strict_eq_def js_ge_def js_lt_def)


section \<open>Report: properties\<close>

text \<open>
  C1 at a store holding one view of \<open>post1\<close> by the anonymous client \<open>anonA\<close>, one hour
  old: a report of \<open>post1\<close> by another anonymous client, \<open>anonB\<close>, is answered as a
  duplicate of \<open>anonA\<close>'s record and nothing is stored. The duplicate query of a command
  without \<open>user\<close> has no condition on \<open>anonymousId\<close>.
\<close>

theorem anonymous_report_deduplicated_across_clients:
  "reportBrowseLog no_ops no_parse (clock_at 1700003600000) anon_store
     [(''code'', JNum 700), (''anonymousId'', JStr ''anonB''), (''targetId'', JStr ''post1'')]
   = Inr (Reply 200 AlreadyRecorded
            (Some [(''browseId'', JOid 0), (''lastBrowseTime'', JDate 1700000000000)]),
          anon_store)
   \<and> duplicateQuery (clock_at 1700003600000)
        [(''code'', JNum 700), (''anonymousId'', JStr ''anonB''), (''targetId'', JStr ''post1'')]
     = [Field ''targetId'' (Val (JStr ''post1'')), Field ''createdAt'' (Gte 1699917200000)]"
  by (simp add: reportBrowseLog_def strict_eq_def get_def too_far_def timeDiff_def js_or_def
      clock_at_def anon_store_def findOne_def duplicateQuery_def duplicateInterval_def
      query_valid_def val_valid_def matches_def val_holds_def eq_holds_def)

text \<open>
  C3 at the same store: \<open>anonB\<close> reports \<open>post1\<close> twice, one hour apart. Both reports
  are answered as duplicates with the id and the time of \<open>anonA\<close>'s record, the store stays
  as it was, and it holds no record of \<open>anonB\<close>: not one record for the pair of
  \<open>post1\<close> and \<open>anonB\<close>, and no first record of \<open>anonB\<close> for the second answer to
  name.
\<close>

theorem anonymous_report_twice_records_nothing:
  "reportBrowseLog no_ops no_parse (clock_at 1700003600000) anon_store report_anonB
     = Inr (Reply 200 AlreadyRecorded
              (Some [(''browseId'', JOid 0), (''lastBrowseTime'', JDate 1700000000000)]),
            anon_store)
   \<and> reportBrowseLog no_ops no_parse (clock_at 1700007200000) anon_store report_anonB
     = Inr (Reply 200 AlreadyRecorded
              (Some [(''browseId'', JOid 0), (''lastBrowseTime'', JDate 1700000000000)]),
            anon_store)
   \<and> filter (\<lambda>d. get d ''anonymousId'' = JStr ''anonB'') (browselogs anon_store) = []
   \<and> map (\<lambda>d. get d ''anonymousId'') (browselogs anon_store) = [JStr ''anonA'']"
  by (simp add: reportBrowseLog_def report_anonB_def strict_eq_def get_def too_far_def
      timeDiff_def js_or_def clock_at_def anon_store_def findOne_def duplicateQuery_def
      duplicateInterval_def query_valid_def val_valid_def matches_def val_holds_def eq_holds_def)

text \<open>
  C5 at two reports of \<open>post1\<close> on the empty store, the clock reading 1700003600000. With
  \<open>created_at\<close> 8640000000000001 the client's date is invalid and the difference is NaN;
  with \<open>created_at\<close> 0 the clock is taken in its place and the difference is 0. Both
  reports pass the time check, are answered 200 and are stored.
\<close>

theorem created_at_escapes_time_check:
  "timeDiff no_parse (clock_at 1700003600000) report_late = None
   \<and> reportBrowseLog no_ops no_parse (clock_at 1700003600000) empty_store report_late
     = Inr (Reply 200 ReportOk
              (Some [(''browseId'', JOid 0), (''browseTime'', JDate 1700003600000)]),
            \<lparr>browselogs =
               [[(''_id'', JOid 0), (''user'', JNull), (''anonymousId'', JNull),
                 (''targetId'', JStr ''post1''), (''ipAddress'', JStr []),
                 (''createdAt'', JDate 1700003600000), (''updatedAt'', JDate 1700003600000)]],
             next_oid = 1\<rparr>)
   \<and> timeDiff no_parse (clock_at 1700003600000) report_epoch = Some 0
   \<and> reportBrowseLog no_ops no_parse (clock_at 1700003600000) empty_store report_epoch
     = Inr (Reply 200 ReportOk
              (Some [(''browseId'', JOid 0), (''browseTime'', JDate 1700003600000)]),
            \<lparr>browselogs =
               [[(''_id'', JOid 0), (''user'', JNull), (''anonymousId'', JNull),
                 (''targetId'', JStr ''post1''), (''ipAddress'', JStr []),
                 (''createdAt'', JDate 1700003600000), (''updatedAt'', JDate 1700003600000)]],
             next_oid = 1\<rparr>)"
  by (simp add: reportBrowseLog_def report_late_def report_epoch_def strict_eq_def get_def
      too_far_def timeDiff_def js_or_def clock_at_def empty_store_def findOne_def
      duplicateQuery_def duplicateInterval_def query_valid_def val_valid_def matches_def
      insertOne_def stored_def browseRecord_def)

text \<open>
  C9 at the command \<open>{code: 700, targetId: "post1"}\<close>, which gives neither \<open>user\<close> nor
  \<open>anonymousId\<close>: it is accepted, and the record it stores has \<open>user\<close> null and
  \<open>anonymousId\<close> null.
\<close>

theorem report_stores_null_anonymousId:
  "reportBrowseLog no_ops no_parse (clock_at 1700003600000) empty_store
     [(''code'', JNum 700), (''targetId'', JStr ''post1'')]
   = Inr (Reply 200 ReportOk
            (Some [(''browseId'', JOid 0), (''browseTime'', JDate 1700003600000)]),
          \<lparr>browselogs =
             [[(''_id'', JOid 0), (''user'', JNull), (''anonymousId'', JNull),
               (''targetId'', JStr ''post1''), (''ipAddress'', JStr []),
               (''createdAt'', JDate 1700003600000), (''updatedAt'', JDate 1700003600000)]],
           next_oid = 1\<rparr>)"
  by (simp add: reportBrowseLog_def strict_eq_def get_def too_far_def timeDiff_def js_or_def
      clock_at_def empty_store_def findOne_def duplicateQuery_def duplicateInterval_def
      query_valid_def val_valid_def matches_def insertOne_def stored_def browseRecord_def)

text \<open>A report leaves the store as it was or appends the record it built.\<close>

lemma report_store_change:
  assumes "reportBrowseLog xo pd clk s ev = Inr (reply, s')"
  shows "s' = s
    \<or> browselogs s' = browselogs s @ [stored (JOid (next_oid s)) (browseRecord clk ev)]"
  using assms
  by (auto simp: reportBrowseLog_def insertOne_def split: if_splits option.splits sum.splits)

lemma view_cmd_result:
  "reportBrowseLog no_ops no_parse (clock_at 1700003600000) anon_store view_cmd
     = Inr (Reply 200 ReportOk
              (Some [(''browseId'', JOid 1), (''browseTime'', JDate 1700003600000)]),
            viewed_store)"
  by (simp add: reportBrowseLog_def strict_eq_def get_def too_far_def timeDiff_def js_or_def
      clock_at_def anon_store_def view_cmd_def viewed_def viewed_store_def findOne_def
      duplicateQuery_def duplicateInterval_def query_valid_def val_valid_def matches_def
      val_holds_def eq_holds_def insertOne_def stored_def browseRecord_def)


section \<open>Read: properties\<close>

lemma bson_truthy: "truthy v \<Longrightarrow> bson v = v"
  by (cases v) simp_all

lemma val_holds_plain: "\<not> is_expression v \<Longrightarrow> val_holds xo v fv = eq_holds v fv"
  by (simp add: val_holds_def)

lemma matches_append: "matches xo (p @ q) d = (matches xo p d \<and> matches xo q d)"
  by (simp add: matches_def)

lemma set_insert_desc: "set (insert_desc d ds) = insert d (set ds)"
  by (induction ds) auto

lemma set_sort_desc: "set (sort_desc ds) = set ds"
  unfolding sort_desc_def by (induction ds) (simp_all add: set_insert_desc)

lemma cursor_page_subset:
  assumes "cursor_page sk lim ds = Inr page"
  shows "set page \<subseteq> set ds"
  using assms set_drop_subset[of "nat (the sk)" ds] set_take_subset[of _ "drop (nat (the sk)) ds"]
  by (auto simp: cursor_page_def split: option.splits if_splits jsval.splits)

text \<open>Every document of a page is in the collection and matches the query.\<close>

lemma browseRecords_match:
  assumes "browseRecords xo cv pd adminPubkey s queryEvent = Inr page" and "d \<in> set page"
  shows "d \<in> set (browselogs s) \<and> matches xo (readQuery pd adminPubkey queryEvent) d"
proof -
  from assms(1) obtain found where
    found: "found = filter (matches xo (readQuery pd adminPubkey queryEvent)) (browselogs s)"
    and page: "cursor_page
        (skip_of cv (js_or (get queryEvent ''pageNum'') (JNum 1))
                    (js_or (get queryEvent ''pageSize'') (JNum 20)))
        (js_or (get queryEvent ''pageSize'') (JNum 20)) (sort_desc found) = Inr page"
    by (auto simp: browseRecords_def find_docs_def split: if_splits)
  from cursor_page_subset[OF page] assms(2) have "d \<in> set found"
    by (auto simp: set_sort_desc)
  then show ?thesis
    by (simp add: found)
qed

lemma get_formatted_ip:
  "get (formatted a ev d) ''ipAddress''
     = (if isAdmin a ev then get d ''ipAddress'' else JStr ''******'')"
  by (simp add: formatted_def get_def)

lemma readBrowseLogs_data:
  assumes "readBrowseLogs xo cv pd a s ev = Inr (Reply c m (Some rd))"
  shows "\<exists>page. browseRecords xo cv pd a s ev = Inr page
     \<and> list rd = map (formatted a ev) page"
  using assms
  by (auto simp: readBrowseLogs_def split: if_splits sum.splits)

lemma read_u1_result:
  "readBrowseLogs no_ops no_parse no_parse admin_key ledger3 read_u1
     = Inr (Reply 200 ReadOk (Some u1_page))"
  by (simp add: readBrowseLogs_def browseRecords_def find_docs_def read_u1_def ledger3_def
      admin_key_def strict_eq_def get_def js_or_def skip_of_def cursor_page_def sort_desc_def
      created_time_def readQuery_def visibility_def commonFilters_def isAdmin_def
      query_valid_def val_valid_def matches_def all_hold_def val_holds_def eq_holds_def
      formatted_def countDocuments_def u1_page_def)

lemma read_admin_result:
  "readBrowseLogs no_ops no_parse no_parse admin_key ledger3 read_admin
     = Inr (Reply 200 ReadOk (Some admin_page))"
  by (simp add: readBrowseLogs_def browseRecords_def find_docs_def read_admin_def ledger3_def
      admin_key_def strict_eq_def get_def js_or_def skip_of_def cursor_page_def sort_desc_def
      created_time_def readQuery_def visibility_def commonFilters_def isAdmin_def
      query_valid_def val_valid_def matches_def all_hold_def val_holds_def eq_holds_def
      formatted_def countDocuments_def admin_page_def)

lemma read_typed_result:
  "readBrowseLogs no_ops no_parse no_parse admin_key typed_store read_typed
     = Inr (Reply 200 ReadOk (Some typed_page))"
  by (simp add: readBrowseLogs_def browseRecords_def find_docs_def read_typed_def
      typed_store_def admin_key_def viewed_def typed_doc_def
      strict_eq_def get_def js_or_def skip_of_def cursor_page_def sort_desc_def created_time_def
      readQuery_def visibility_def commonFilters_def isAdmin_def query_valid_def val_valid_def
      matches_def all_hold_def val_holds_def eq_holds_def formatted_def countDocuments_def
      typed_page_def)

lemma read_examples_code:
  "strict_eq (get read_u1 ''code'') (JNum 703)"
  "strict_eq (get read_admin ''code'') (JNum 703)"
  "\<not> isAdmin admin_key read_u1"
  "isAdmin admin_key read_admin"
  by (simp_all add: read_u1_def read_admin_def admin_key_def isAdmin_def strict_eq_def get_def)

text \<open>
  C4 at the ledger with an anonymous view, a view by \<open>u1\<close> and a view by \<open>u2\<close>, read by
  a caller who is not the administrator and whose \<open>user\<close> is \<open>{"$ne": null}\<close>. The
  first alternative of the forced query is then \<open>{user: {$ne: null}}\<close>, which every record
  with a \<open>user\<close> satisfies: the caller is given the records of \<open>u1\<close> and of \<open>u2\<close>.
\<close>

theorem operator_user_reads_other_owners:
  "\<not> isAdmin admin_key read_ne
   \<and> visibility admin_key read_ne
     = [Or [[(''user'', Val (JObj [(''$ne'', JNull)]))],
            [(''anonymousId'', Val (JStr ''anonX'')), (''user'', Val JNull)]]]
   \<and> readBrowseLogs no_ops no_parse no_parse admin_key ledger3 read_ne
     = Inr (Reply 200 ReadOk
         (Some \<lparr>list =
             [[(''_id'', JOid 2), (''user'', JStr ''u2''), (''anonymousId'', JStr ''anonB''),
               (''targetId'', JStr ''post1''), (''createdAt'', JDate 1700000200000),
               (''updatedAt'', JDate 1700000200000), (''ipAddress'', JStr ''******'')],
              [(''_id'', JOid 1), (''user'', JStr ''u1''), (''anonymousId'', JStr ''anonA''),
               (''targetId'', JStr ''post2''), (''createdAt'', JDate 1700000100000),
               (''updatedAt'', JDate 1700000100000), (''ipAddress'', JStr ''******'')]],
           pageNum = JNum 1, pageSize = JNum 20, total = 2\<rparr>))"
  by (simp add: readBrowseLogs_def browseRecords_def find_docs_def read_ne_def ledger3_def
      admin_key_def strict_eq_def get_def js_or_def skip_of_def cursor_page_def sort_desc_def
      created_time_def readQuery_def visibility_def commonFilters_def isAdmin_def
      query_valid_def val_valid_def op_valid_def matches_def all_hold_def val_holds_def
      op_holds_def eq_holds_def formatted_def countDocuments_def)

text \<open>
  C7. In the list a read with code 703 returns, every record has \<open>ipAddress\<close> replaced by
  the placeholder \<open>******\<close> when the caller is not the administrator; when the caller is
  the administrator, each record carries the \<open>ipAddress\<close> of the stored document it was
  made from.
\<close>

theorem read_masks_ipAddress:
  assumes "strict_eq (get ev ''code'') (JNum 703)"
    and "readBrowseLogs xo cv pd a s ev = Inr (Reply c m (Some rd))"
  shows "(\<not> isAdmin a ev \<longrightarrow> (\<forall>r \<in> set (list rd). get r ''ipAddress'' = JStr ''******''))
    \<and> (isAdmin a ev \<longrightarrow>
         (\<exists>page. browseRecords xo cv pd a s ev = Inr page
            \<and> set page \<subseteq> set (browselogs s)
            \<and> map (\<lambda>r. get r ''ipAddress'') (list rd) = map (\<lambda>d. get d ''ipAddress'') page))"
proof -
  obtain page where page: "browseRecords xo cv pd a s ev = Inr page"
    and lst: "list rd = map (formatted a ev) page"
    using readBrowseLogs_data[OF assms(2)] by blast
  have sub: "set page \<subseteq> set (browselogs s)"
    using browseRecords_match[OF page] by blast
  show ?thesis
    using page sub by (auto simp: lst get_formatted_ip)
qed

theorem read_masks_ipAddress_witness:
  "list_all (\<lambda>r. get r ''ipAddress'' = JStr ''******'') (list u1_page)
   \<and> (\<exists>page. browseRecords no_ops no_parse no_parse admin_key ledger3 read_admin = Inr page
        \<and> set page \<subseteq> set (browselogs ledger3)
        \<and> map (\<lambda>r. get r ''ipAddress'') (list admin_page)
            = map (\<lambda>d. get d ''ipAddress'') page)"
proof -
  have "\<forall>r \<in> set (list u1_page). get r ''ipAddress'' = JStr ''******''"
    by (rule mp[OF read_masks_ipAddress[OF read_examples_code(1) read_u1_result,
            THEN conjunct1] read_examples_code(3)])
  then have masked: "list_all (\<lambda>r. get r ''ipAddress'' = JStr ''******'') (list u1_page)"
    unfolding list_all_iff .
  have shown: "\<exists>page. browseRecords no_ops no_parse no_parse admin_key ledger3 read_admin = Inr page
        \<and> set page \<subseteq> set (browselogs ledger3)
        \<and> map (\<lambda>r. get r ''ipAddress'') (list admin_page)
            = map (\<lambda>d. get d ''ipAddress'') page"
    by (rule mp[OF read_masks_ipAddress[OF read_examples_code(2) read_admin_result,
            THEN conjunct2] read_examples_code(4)])
  show ?thesis
    by (rule conjI[OF masked shown])
qed

text \<open>A \<open>targetType\<close> that is compared, not read as an operator expression, is only
  matched by documents that have the field.\<close>

lemma targetType_filter_needs_field:
  assumes "truthy (get ev ''targetType'')" and "\<not> is_expression (get ev ''targetType'')"
    and "matches xo (readQuery pd a ev) d"
  shows "map_of d ''targetType'' \<noteq> None"
proof
  assume none: "map_of d ''targetType'' = None"
  have "eq_holds (get ev ''targetType'') (map_of d ''targetType'')"
    using assms
    by (simp add: readQuery_def commonFilters_def matches_append matches_def bson_truthy
        val_holds_plain)
  with none assms(1) show False
    by (auto simp: eq_holds_def)
qed

text \<open>
  C10 as stated fails. The record \<open>viewed\<close> is created by a report; a read by \<open>u1\<close> whose
  \<open>targetType\<close> is \<open>{"$exists": false}\<close> supplies a \<open>targetType\<close> filter (the value is
  truthy, so the filter is applied) and returns \<open>viewed\<close>, together with the anonymous record
  of the same client.
\<close>

theorem exists_filter_returns_reported_record:
  "reportBrowseLog no_ops no_parse (clock_at 1700003600000) anon_store view_cmd
     = Inr (Reply 200 ReportOk
              (Some [(''browseId'', JOid 1), (''browseTime'', JDate 1700003600000)]),
            viewed_store)
   \<and> browselogs viewed_store = browselogs anon_store @ [viewed]
   \<and> truthy (get read_untyped ''targetType'')
   \<and> commonFilters no_parse read_untyped
     = [Field ''targetType'' (Val (JObj [(''$exists'', JBool False)]))]
   \<and> browseRecords no_ops no_parse no_parse admin_key viewed_store read_untyped
     = Inr (viewed # browselogs anon_store)
   \<and> readBrowseLogs no_ops no_parse no_parse admin_key viewed_store read_untyped
     = Inr (Reply 200 ReadOk
         (Some \<lparr>list = map (formatted admin_key read_untyped) (viewed # browselogs anon_store),
                pageNum = JNum 1, pageSize = JNum 20, total = 2\<rparr>))"
  by (simp add: view_cmd_result, simp add: readBrowseLogs_def browseRecords_def find_docs_def
      read_untyped_def viewed_store_def anon_store_def viewed_def admin_key_def strict_eq_def
      get_def js_or_def skip_of_def cursor_page_def sort_desc_def created_time_def
      readQuery_def visibility_def commonFilters_def isAdmin_def query_valid_def val_valid_def
      op_valid_def matches_def all_hold_def val_holds_def op_holds_def eq_holds_def
      countDocuments_def)

text \<open>
  C10, as the code has it. The record the report operation builds has exactly the fields
  \<open>user\<close>, \<open>anonymousId\<close>, \<open>targetId\<close>, \<open>ipAddress\<close>, \<open>createdAt\<close> and
  \<open>updatedAt\<close>, and a record \<open>r\<close> that a report has added to the collection has these
  fields after the \<open>_id\<close> the store gives it; it has no \<open>targetType\<close>. So whatever the
  state of the store, a read with code 703 that gives a \<open>targetType\<close> to compare with (a
  truthy value that is not an operator expression) never has \<open>r\<close> among the documents of
  its page.
\<close>

theorem reported_records_have_no_targetType:
  assumes "reportBrowseLog xo pd clk s ev = Inr (reply, s')"
    and "r \<in> set (browselogs s')" and "r \<notin> set (browselogs s)"
  shows "map fst (browseRecord clk ev)
       = [''user'', ''anonymousId'', ''targetId'', ''ipAddress'', ''createdAt'', ''updatedAt'']
    \<and> map fst r = ''_id'' # map fst (browseRecord clk ev)
    \<and> (\<forall>xo2 cv pd2 a s2 qev c m rd.
          truthy (get qev ''targetType'') \<and> \<not> is_expression (get qev ''targetType'')
          \<and> readBrowseLogs xo2 cv pd2 a s2 qev = Inr (Reply c m (Some rd)) \<longrightarrow>
          (\<exists>page. browseRecords xo2 cv pd2 a s2 qev = Inr page
             \<and> list rd = map (formatted a qev) page \<and> r \<notin> set page))"
proof -
  have r: "r = stored (JOid (next_oid s)) (browseRecord clk ev)"
    using report_store_change[OF assms(1)] assms(2,3) by auto
  have built: "map fst (browseRecord clk ev)
       = [''user'', ''anonymousId'', ''targetId'', ''ipAddress'', ''createdAt'', ''updatedAt'']"
    by (simp add: browseRecord_def)
  have fields: "map fst r = ''_id'' # map fst (browseRecord clk ev)"
    by (simp add: r stored_def browseRecord_def)
  have none: "map_of r ''targetType'' = None"
    by (simp add: r stored_def browseRecord_def)
  have "\<exists>page. browseRecords xo2 cv pd2 a s2 qev = Inr page
             \<and> list rd = map (formatted a qev) page \<and> r \<notin> set page"
    if tt: "truthy (get qev ''targetType'')" and plain: "\<not> is_expression (get qev ''targetType'')"
      and rd: "readBrowseLogs xo2 cv pd2 a s2 qev = Inr (Reply c m (Some rd))"
    for xo2 cv pd2 a s2 qev c m rd
  proof -
    obtain page where page: "browseRecords xo2 cv pd2 a s2 qev = Inr page"
      and lst: "list rd = map (formatted a qev) page"
      using readBrowseLogs_data[OF rd] by blast
    have "r \<notin> set page"
      using browseRecords_match[OF page] targetType_filter_needs_field[OF tt plain] none
      by blast
    with page lst show ?thesis by blast
  qed
  with built fields show ?thesis by blast
qed

theorem reported_records_have_no_targetType_witness:
  "map fst viewed = ''_id'' # map fst (browseRecord (clock_at 1700003600000) view_cmd)
   \<and> (\<exists>page. browseRecords no_ops no_parse no_parse admin_key typed_store read_typed = Inr page
        \<and> list typed_page = map (formatted admin_key read_typed) page \<and> viewed \<notin> set page)"
proof -
  have new: "viewed \<in> set (browselogs viewed_store)" "viewed \<notin> set (browselogs anon_store)"
    by (simp_all add: viewed_store_def anon_store_def viewed_def)
  have given: "truthy (get read_typed ''targetType'')
      \<and> \<not> is_expression (get read_typed ''targetType'')
      \<and> readBrowseLogs no_ops no_parse no_parse admin_key typed_store read_typed
          = Inr (Reply 200 ReadOk (Some typed_page))"
    using read_typed_result by (simp add: read_typed_def get_def)
  note t = reported_records_have_no_targetType[OF view_cmd_result new]
  have absent: "\<exists>page. browseRecords no_ops no_parse no_parse admin_key typed_store read_typed = Inr page
        \<and> list typed_page = map (formatted admin_key read_typed) page \<and> viewed \<notin> set page"
    by (rule mp[OF t[THEN conjunct2, THEN conjunct2, THEN spec, THEN spec, THEN spec, THEN spec,
            THEN spec, THEN spec, THEN spec, THEN spec, THEN spec] given])
  show ?thesis
    by (rule conjI[OF t[THEN conjunct2, THEN conjunct1] absent])
qed


section \<open>Count: properties\<close>




















text \<open>The \<open>targetId\<close> of a record that a report has added is truthy: it is a target
  id proper unless it is an array.\<close>

lemma reported_target_is_truthy:
  assumes "reportBrowseLog xo pd clk s ev = Inr (reply, s')"
    and "r \<in> set (browselogs s')" and "r \<notin> set (browselogs s)"
  shows "truthy (get r ''targetId'')"
proof -
  have r: "r = stored (JOid (next_oid s)) (browseRecord clk ev)"
    using report_store_change[OF assms(1)] assms(2,3) by auto
  have "truthy (get ev ''targetId'')"
    using assms by (auto simp: reportBrowseLog_def split: if_splits)
  then show ?thesis
    by (simp add: r stored_def browseRecord_def get_def bson_truthy)
qed

lemma truthy_is_id: "truthy v \<Longrightarrow> is_id v \<or> (\<exists>xs. v = JArr xs)"
  by (cases v) simp_all





end
